theory Spec2Isabelle
  imports Complex_Main
begin

section \<open>The collision sampler of src/collider.cxx\<close>

text \<open>
  The translation unit \<^verbatim>\<open>collider.cxx\<close> holds the helper functions
  \<^verbatim>\<open>create_nucleus\<close>, \<^verbatim>\<open>determine_bmax\<close>, \<^verbatim>\<open>determine_asym\<close>, the constructor
  \<^verbatim>\<open>Collider::Collider\<close>, the event loop \<^verbatim>\<open>Collider::run_events\<close> and the rejection
  sampler \<^verbatim>\<open>Collider::sample_collision\<close>.

  Conventions of the embedding.
  \<^item> A C++ \<^verbatim>\<open>double\<close> is a \<open>real\<close>: rounding, infinities and NaN are not modelled.
    The argument of \<^verbatim>\<open>std::sqrt\<close> in \<^verbatim>\<open>sample_collision\<close> is
    \<open>(1 - u) * bmin\<^sup>2 + u * bmax\<^sup>2\<close>, which is not negative for a uniform draw \<open>u\<close> in
    \<open>[0, 1]\<close>, where \<open>sqrt\<close> on the reals is the square root.
  \<^item> A C++ \<^verbatim>\<open>int\<close> (and the \<^verbatim>\<open>int64_t\<close> seed) is an \<open>int\<close>.  The only arithmetic
    on them is \<^verbatim>\<open>++\<close>.  The loop counter \<open>n\<close> of \<^verbatim>\<open>run_events\<close> stays below
    \<^verbatim>\<open>nevents_\<close>, and \<open>ncoll\<close> is at most the number of nucleon pairs of one sweep
    (\<open>sample_collision_ncoll_bound\<close> below): for these \<^verbatim>\<open>++\<close> is \<open>+ 1\<close>.  The trial
    counter \<open>nToCollide\<close> grows with the number of trials, which has no bound: its
    \<^verbatim>\<open>++\<close> is \<open>incr_int\<close>, which wraps at \<^verbatim>\<open>INT_MAX\<close>.
  \<^item> The global \<^verbatim>\<open>random::engine\<close> is a value of type \<open>'g\<close> that every function
    drawing from it takes and returns.
  \<^item> An exception is a value \<open>Inl e\<close> of a sum type.
  \<^item> A loop that need not end is a \<^theory_text>\<open>partial_function (option)\<close>: not returning
    is \<open>None\<close>.
\<close>

subsection \<open>Configuration\<close>

text \<open>
  The options that \<^verbatim>\<open>collider.cxx\<close> reads from the \<^verbatim>\<open>VarMap\<close>, each with the type of
  its \<^verbatim>\<open>as<T>()\<close>: \<^verbatim>\<open>projectile\<close>, \<^verbatim>\<open>nucleon-min-dist\<close>, \<^verbatim>\<open>a0\<close>, \<^verbatim>\<open>y-mean\<close>, \<^verbatim>\<open>y-std\<close>,
  \<^verbatim>\<open>beta2-mean\<close>, \<^verbatim>\<open>beta2-std\<close>, \<^verbatim>\<open>beta3\<close>, \<^verbatim>\<open>beta4\<close>, \<^verbatim>\<open>number-events\<close>, \<^verbatim>\<open>ncoll\<close>,
  \<^verbatim>\<open>toColl\<close>, \<^verbatim>\<open>b-min\<close>, \<^verbatim>\<open>b-max\<close>, \<^verbatim>\<open>random-seed\<close>.
\<close>

record var_map =
  projectile :: "string list"
  nucleon_min_dist :: real
  a0 :: real
  y_mean :: real
  y_std :: real
  beta2_mean :: real
  beta2_std :: real
  beta3 :: real
  beta4 :: real
  number_events :: int
  ncoll_opt :: bool
  toColl :: bool
  b_min :: real
  b_max :: real
  random_seed :: int

datatype error =
  Out_of_range         \<comment> \<open>\<^verbatim>\<open>std::vector::at\<close> past the end\<close>
| Collaborator string  \<comment> \<open>an exception thrown by a collaborator's constructor\<close>

subsection \<open>Collaborators\<close>

text \<open>
  The classes \<^verbatim>\<open>Nucleus\<close>, \<^verbatim>\<open>NucleonCommon\<close>, \<^verbatim>\<open>Event\<close>, \<^verbatim>\<open>Output\<close> and the namespace
  \<^verbatim>\<open>random\<close> are used by \<^verbatim>\<open>collider.cxx\<close> and defined elsewhere.  Their operations
  are the fields of one record, so that every theorem holds for all of them:
  \<open>'N\<close> is a nucleus object, \<open>'n\<close> a nucleon, \<open>'C\<close> the \<^verbatim>\<open>NucleonCommon\<close> object,
  \<open>'E\<close> the \<^verbatim>\<open>Event\<close> object and \<open>'g\<close> the state of the random engine.
  A method that mutates its object returns the new object; one that draws random
  numbers takes and returns the engine.  The signatures follow the interface table
  of the specification: \<^verbatim>\<open>sample_nucleons\<close> replaces the nucleons of its nucleus,
  \<^verbatim>\<open>participate\<close> yields a truth value from the model, the two nucleons and the
  engine, and leaves the nucleons as they are.  The methods called while events run
  do not throw; the constructors may.
\<close>

record ('N, 'n, 'C, 'E, 'g) collaborators =
  normal_distribution :: "real \<Rightarrow> real \<Rightarrow> 'g \<Rightarrow> real \<times> 'g"
  canonical :: "'g \<Rightarrow> real \<times> 'g"
  engine_seed :: "int \<Rightarrow> 'g"
  Nucleus_create :: "string \<Rightarrow> real \<Rightarrow> real \<Rightarrow> real \<Rightarrow> real \<Rightarrow> real \<Rightarrow> real \<Rightarrow> error + 'N"
  radius :: "'N \<Rightarrow> real"
  sample_nucleons :: "'N \<Rightarrow> real \<Rightarrow> 'g \<Rightarrow> 'N \<times> 'g"
  nucleons :: "'N \<Rightarrow> 'n list"
  NucleonCommon_ctor :: "var_map \<Rightarrow> error + 'C"
  max_impact :: "'C \<Rightarrow> real"
  participate :: "'C \<Rightarrow> 'n \<Rightarrow> 'n \<Rightarrow> 'g \<Rightarrow> bool \<times> 'g"
  Event_ctor :: "var_map \<Rightarrow> error + 'E"
  compute :: "'E \<Rightarrow> 'N \<Rightarrow> 'N \<Rightarrow> 'C \<Rightarrow> 'E"
  Output_ctor :: "var_map \<Rightarrow> error option"

subsection \<open>Helper functions of the constructor\<close>

text \<open>
  \<^verbatim>\<open>determine_bmax\<close>: the arguments are the configured \<^verbatim>\<open>b-max\<close>, \<^verbatim>\<open>A.radius()\<close>,
  \<^verbatim>\<open>B.radius()\<close> and \<^verbatim>\<open>nc.max_impact()\<close>.
\<close>

definition determine_bmax :: "real \<Rightarrow> real \<Rightarrow> real \<Rightarrow> real \<Rightarrow> real" where
  "determine_bmax bmax rA rB max_imp =
     (if bmax < 0 then rA + rB + max_imp else bmax)"

text \<open>\<^verbatim>\<open>determine_asym\<close>: the arguments are \<^verbatim>\<open>A.radius()\<close> and \<^verbatim>\<open>B.radius()\<close>.\<close>

definition determine_asym :: "real \<Rightarrow> real \<Rightarrow> real" where
  "determine_asym rA rB =
     (let sum = rA + rB in if sum < 0.1 then 0.5 else rA / sum)"

subsection \<open>The Collider object\<close>

text \<open>
  The members named in the constructor's initialiser list (a member \<^verbatim>\<open>x_\<close> of the
  source is the field \<open>x\<close>).  \<^verbatim>\<open>output_\<close> is the field \<open>outputs\<close>, modelled
  by the sequence of calls made to it: one entry \<open>(n, b, ncoll, nToCollide, event)\<close>
  for each \<^verbatim>\<open>output_(n, b, ncoll, nToCollide, event_)\<close>.
\<close>

record ('N, 'C, 'E) collider =
  nucleusA :: 'N
  nucleusB :: 'N
  nucleon_common :: 'C
  nevents :: int
  calc_ncoll :: bool
  calc_toColl :: bool
  bmin :: real
  bmax :: real
  asymmetry :: real
  event :: 'E
  outputs :: "(int \<times> real \<times> int \<times> int \<times> 'E) list"

subsection \<open>\<^verbatim>\<open>Collider::sample_collision\<close>\<close>

text \<open>
  The inner \<^verbatim>\<open>for\<close> loop over the nucleons of B, for one nucleon \<open>a\<close> of A.  The
  loop variables are \<open>(ncoll, collision)\<close> and the engine.
\<close>

fun loop_B :: "('N, 'n, 'C, 'E, 'g) collaborators \<Rightarrow> 'C \<Rightarrow> bool \<Rightarrow> 'n \<Rightarrow> 'n list
    \<Rightarrow> int \<times> bool \<times> 'g \<Rightarrow> int \<times> bool \<times> 'g" where
  "loop_B X nc calc a [] s = s"
| "loop_B X nc calc a (b # bs) (ncoll, collision, g) =
     (let (new_collision, g') = participate X nc a b g;
          ncoll' = (if new_collision \<and> calc then ncoll + 1 else ncoll);
          collision' = (new_collision \<or> collision)
      in loop_B X nc calc a bs (ncoll', collision', g'))"

text \<open>The outer \<^verbatim>\<open>for\<close> loop over the nucleons of A.\<close>

fun loop_A :: "('N, 'n, 'C, 'E, 'g) collaborators \<Rightarrow> 'C \<Rightarrow> bool \<Rightarrow> 'n list \<Rightarrow> 'n list
    \<Rightarrow> int \<times> bool \<times> 'g \<Rightarrow> int \<times> bool \<times> 'g" where
  "loop_A X nc calc [] bs s = s"
| "loop_A X nc calc (a # as) bs s = loop_A X nc calc as bs (loop_B X nc calc a bs s)"

text \<open>
  \<^verbatim>\<open>nToCollide++\<close> on a 32-bit \<^verbatim>\<open>int\<close>.  The loop has no ceiling on its trials, so
  the counter can stand at \<^verbatim>\<open>INT_MAX\<close> when it is incremented; the increment then
  gives \<^verbatim>\<open>INT_MIN\<close>, the two's complement value that the compiled code produces
  (the C++ standard leaves signed overflow undefined).
\<close>

definition incr_int :: "int \<Rightarrow> int" where
  "incr_int n = (if n = 2147483647 then - 2147483648 else n + 1)"

text \<open>
  One pass through the body of the \<^verbatim>\<open>do\<close> loop.  The variables that live across
  iterations are \<open>ncoll\<close>, \<open>collision\<close>, \<open>nToCollide\<close>, the Collider and the engine;
  \<open>b\<close> is assigned before it is read, so the body returns it.
\<close>

definition trial :: "('N, 'n, 'C, 'E, 'g) collaborators
    \<Rightarrow> int \<times> bool \<times> int \<times> ('N, 'C, 'E) collider \<times> 'g
    \<Rightarrow> real \<times> int \<times> bool \<times> int \<times> ('N, 'C, 'E) collider \<times> 'g" where
  "trial X = (\<lambda>(ncoll, collision, nToCollide, c, g).
     let (u, g1) = canonical X g;
         b = sqrt (bmin c * bmin c + (bmax c * bmax c - bmin c * bmin c) * u);
         (A, g2) = sample_nucleons X (nucleusA c) (asymmetry c * b) g1;
         (B, g3) = sample_nucleons X (nucleusB c) ((asymmetry c - 1) * b) g2;
         c' = c\<lparr>nucleusA := A, nucleusB := B\<rparr>;
         (ncoll', collision', g4) =
            loop_A X (nucleon_common c') (calc_ncoll c') (nucleons X A) (nucleons X B)
              (ncoll, collision, g3);
         nToCollide' = (if calc_toColl c' then incr_int nToCollide else nToCollide)
     in (b, ncoll', collision', nToCollide', c', g4))"

text \<open>The \<^verbatim>\<open>do { ... } while (!collision)\<close> loop.\<close>

partial_function (option) sample_loop :: "('N, 'n, 'C, 'E, 'g) collaborators
    \<Rightarrow> int \<times> bool \<times> int \<times> ('N, 'C, 'E) collider \<times> 'g
    \<Rightarrow> ((real \<times> int \<times> int) \<times> ('N, 'C, 'E) collider \<times> 'g) option" where
  "sample_loop X s =
     (case trial X s of (b, ncoll, collision, nToCollide, c, g) \<Rightarrow>
        if \<not> collision then sample_loop X (ncoll, collision, nToCollide, c, g)
        else Some ((b, ncoll, nToCollide), c, g))"

text \<open>
  \<^verbatim>\<open>sample_collision\<close>: the tuple \<open>(b, ncoll, nToCollide)\<close> together with the Collider
  and the engine as the call leaves them.
\<close>

definition sample_collision :: "('N, 'n, 'C, 'E, 'g) collaborators
    \<Rightarrow> ('N, 'C, 'E) collider \<Rightarrow> 'g
    \<Rightarrow> ((real \<times> int \<times> int) \<times> ('N, 'C, 'E) collider \<times> 'g) option" where
  "sample_collision X c g = sample_loop X (0, False, 0, c, g)"

subsection \<open>\<^verbatim>\<open>create_nucleus\<close> and the constructor\<close>

text \<open>
  \<^verbatim>\<open>create_nucleus\<close>: \<^verbatim>\<open>at(index)\<close> throws past the end of the projectile list; then
  \<open>gamma\<close> and \<open>beta2\<close> are drawn from the engine, in this order, each from a
  normal distribution built for the one draw; then \<^verbatim>\<open>Nucleus::create\<close> is called.
\<close>

definition create_nucleus :: "('N, 'n, 'C, 'E, 'g) collaborators \<Rightarrow> var_map \<Rightarrow> nat \<Rightarrow> 'g
    \<Rightarrow> error + ('N \<times> 'g)" where
  "create_nucleus X vm index g =
     (if index < length (projectile vm) then
        let species = projectile vm ! index;
            nucleon_dmin = nucleon_min_dist vm;
            (gamma, g1) = normal_distribution X (y_mean vm) (y_std vm) g;
            (beta2, g2) = normal_distribution X (beta2_mean vm) (beta2_std vm) g1
        in (case Nucleus_create X species nucleon_dmin (a0 vm) beta2 (beta3 vm) (beta4 vm) gamma of
              Inl e \<Rightarrow> Inl e
            | Inr N \<Rightarrow> Inr (N, g2))
      else Inl Out_of_range)"

text \<open>
  \<^verbatim>\<open>Collider::Collider\<close>: the member initialisers in the order of the list (the class
  declaration, which fixes the order, is not in this file), then the body, which
  seeds the engine when the seed is positive.  The result is the new object and the
  engine, or the first exception.
\<close>

definition Collider :: "('N, 'n, 'C, 'E, 'g) collaborators \<Rightarrow> var_map \<Rightarrow> 'g
    \<Rightarrow> error + (('N, 'C, 'E) collider \<times> 'g)" where
  "Collider X vm g =
     (case create_nucleus X vm 0 g of Inl e \<Rightarrow> Inl e | Inr (A, g1) \<Rightarrow>
      case create_nucleus X vm 1 g1 of Inl e \<Rightarrow> Inl e | Inr (B, g2) \<Rightarrow>
      case NucleonCommon_ctor X vm of Inl e \<Rightarrow> Inl e | Inr nc \<Rightarrow>
      case Event_ctor X vm of Inl e \<Rightarrow> Inl e | Inr ev \<Rightarrow>
      case Output_ctor X vm of Some e \<Rightarrow> Inl e | None \<Rightarrow>
        let c = \<lparr>nucleusA = A, nucleusB = B, nucleon_common = nc,
                 nevents = number_events vm,
                 calc_ncoll = ncoll_opt vm,
                 calc_toColl = toColl vm,
                 bmin = b_min vm,
                 bmax = determine_bmax (b_max vm) (radius X A) (radius X B) (max_impact X nc),
                 asymmetry = determine_asym (radius X A) (radius X B),
                 event = ev, outputs = []\<rparr>;
            seed = random_seed vm
        in Inr (c, if seed > 0 then engine_seed X seed else g2))"

subsection \<open>\<^verbatim>\<open>Collider::run_events\<close>\<close>

text \<open>The \<^verbatim>\<open>for\<close> loop, from the value \<open>n\<close> of its counter on.  It ends because
  \<^verbatim>\<open>sample_collision\<close> leaves \<^verbatim>\<open>nevents_\<close> as it is, which is proved among the facts
  below.\<close>

function run_events_from :: "('N, 'n, 'C, 'E, 'g) collaborators \<Rightarrow> int
    \<Rightarrow> ('N, 'C, 'E) collider \<Rightarrow> 'g \<Rightarrow> (('N, 'C, 'E) collider \<times> 'g) option" where
  "run_events_from X n c g =
     (if n < nevents c then
        (case sample_collision X c g of
           None \<Rightarrow> None
         | Some ((b, ncoll, nToCollide), c1, g1) \<Rightarrow>
             let ev = compute X (event c1) (nucleusA c1) (nucleusB c1) (nucleon_common c1);
                 c2 = c1\<lparr>event := ev, outputs := outputs c1 @ [(n, b, ncoll, nToCollide, ev)]\<rparr>
             in run_events_from X (n + 1) c2 g1)
      else Some (c, g))"
  by pat_completeness auto

definition run_events :: "('N, 'n, 'C, 'E, 'g) collaborators
    \<Rightarrow> ('N, 'C, 'E) collider \<Rightarrow> 'g \<Rightarrow> (('N, 'C, 'E) collider \<times> 'g) option" where
  "run_events X c g = run_events_from X 0 c g"

subsection \<open>A full run\<close>

text \<open>
  The program constructs one Collider from the configuration and calls
  \<^verbatim>\<open>run_events\<close> on it.  \<open>reported\<close> is what such a run, started with the engine in
  state \<open>g\<close>, hands to the output: the tuple \<open>(b, ncoll, nToCollide)\<close> of every
  event, in order.  \<open>None\<close> is a run that does not return, \<open>Some (Inl e)\<close> one whose
  construction fails.
\<close>

definition reported :: "('N, 'n, 'C, 'E, 'g) collaborators \<Rightarrow> var_map \<Rightarrow> 'g
    \<Rightarrow> (error + (real \<times> int \<times> int) list) option" where
  "reported X vm g =
     (case Collider X vm g of
        Inl e \<Rightarrow> Some (Inl e)
      | Inr (c, g') \<Rightarrow>
          (case run_events X c g' of
             None \<Rightarrow> None
           | Some (c', g'') \<Rightarrow>
               Some (Inr (map (\<lambda>(n, b, ncoll, nToCollide, ev). (b, ncoll, nToCollide))
                            (outputs c')))))"

section \<open>Notions for stating the properties\<close>

subsection \<open>Trials of the rejection loop\<close>

text \<open>
  Names for the parts of one pass of the loop, used to state what the loop computes.
  \<open>geometry\<close> is the first half of the body: the impact parameter and the two
  resampled nuclei.
\<close>

definition geometry :: "('N, 'n, 'C, 'E, 'g) collaborators \<Rightarrow> ('N, 'C, 'E) collider \<Rightarrow> 'g
    \<Rightarrow> real \<times> ('N, 'C, 'E) collider \<times> 'g" where
  "geometry X c g =
     (let (u, g1) = canonical X g;
          b = sqrt (bmin c * bmin c + (bmax c * bmax c - bmin c * bmin c) * u);
          (A, g2) = sample_nucleons X (nucleusA c) (asymmetry c * b) g1;
          (B, g3) = sample_nucleons X (nucleusB c) ((asymmetry c - 1) * b) g2
      in (b, c\<lparr>nucleusA := A, nucleusB := B\<rparr>, g3))"

text \<open>
  The specification's pair sweep: \<^verbatim>\<open>participate\<close> evaluated on every pair of a list, in
  order, each call handing the engine to the next; the results and the last engine.
\<close>

fun pair_outcomes :: "('N, 'n, 'C, 'E, 'g) collaborators \<Rightarrow> 'C \<Rightarrow> ('n \<times> 'n) list \<Rightarrow> 'g
    \<Rightarrow> bool list \<times> 'g" where
  "pair_outcomes X nc [] g = ([], g)"
| "pair_outcomes X nc ((a, b) # ps) g =
     (let (r, g') = participate X nc a b g;
          (rs, g'') = pair_outcomes X nc ps g'
      in (r # rs, g''))"

text \<open>What a sweep with these outcomes adds to \<open>ncoll\<close>.\<close>

definition tally :: "bool \<Rightarrow> bool list \<Rightarrow> int" where
  "tally calc rs = (if calc then int (length (filter (\<lambda>r. r) rs)) else 0)"

text \<open>
  The outcomes of the trial that starts with Collider \<open>c\<close> and engine \<open>g\<close>: the sweep
  over the Cartesian product of the freshly sampled nucleons of A and of B.
\<close>

definition trial_outcomes :: "('N, 'n, 'C, 'E, 'g) collaborators \<Rightarrow> ('N, 'C, 'E) collider \<Rightarrow> 'g
    \<Rightarrow> bool list \<times> 'g" where
  "trial_outcomes X c g =
     (case geometry X c g of (b, c', g3) \<Rightarrow>
        pair_outcomes X (nucleon_common c')
          (List.product (nucleons X (nucleusA c')) (nucleons X (nucleusB c'))) g3)"

text \<open>The number of participating pairs of the trial that starts in loop state \<open>s\<close>.\<close>

definition participating :: "('N, 'n, 'C, 'E, 'g) collaborators
    \<Rightarrow> int \<times> bool \<times> int \<times> ('N, 'C, 'E) collider \<times> 'g \<Rightarrow> nat" where
  "participating X = (\<lambda>(ncoll, collision, nToCollide, c, g).
     length (filter (\<lambda>r. r) (fst (trial_outcomes X c g))))"

text \<open>The loop variables after one more pass, the flag tested by \<^verbatim>\<open>while\<close>, and the
  tuple that \<^verbatim>\<open>return\<close> builds from the variables.\<close>

definition advance :: "('N, 'n, 'C, 'E, 'g) collaborators
    \<Rightarrow> int \<times> bool \<times> int \<times> ('N, 'C, 'E) collider \<times> 'g
    \<Rightarrow> int \<times> bool \<times> int \<times> ('N, 'C, 'E) collider \<times> 'g" where
  "advance X s = snd (trial X s)"

definition collided :: "real \<times> int \<times> bool \<times> int \<times> 'c \<times> 'g \<Rightarrow> bool" where
  "collided r = fst (snd (snd r))"

definition returned :: "real \<times> int \<times> bool \<times> int \<times> 'c \<times> 'g
    \<Rightarrow> (real \<times> int \<times> int) \<times> 'c \<times> 'g" where
  "returned r =
     (case r of (b, ncoll, collision, nToCollide, c, g) \<Rightarrow> ((b, ncoll, nToCollide), c, g))"

text \<open>The loop variables at the start of trial \<open>i\<close> (counted from 0) of a call of
  \<^verbatim>\<open>sample_collision\<close> on Collider \<open>c\<close> with engine \<open>g\<close>.\<close>

definition state_before :: "('N, 'n, 'C, 'E, 'g) collaborators \<Rightarrow> ('N, 'C, 'E) collider \<Rightarrow> 'g
    \<Rightarrow> nat \<Rightarrow> int \<times> bool \<times> int \<times> ('N, 'C, 'E) collider \<times> 'g" where
  "state_before X c g i = (advance X ^^ i) (0, False, 0, c, g)"


text \<open>Two Collider objects that differ at most in the state of their two nuclei.\<close>

definition same_config :: "('N, 'C, 'E) collider \<Rightarrow> ('N, 'C, 'E) collider \<Rightarrow> bool" where
  "same_config c c' \<longleftrightarrow>
     nucleon_common c' = nucleon_common c \<and> nevents c' = nevents c \<and>
     calc_ncoll c' = calc_ncoll c \<and> calc_toColl c' = calc_toColl c \<and>
     bmin c' = bmin c \<and> bmax c' = bmax c \<and> asymmetry c' = asymmetry c \<and>
     event c' = event c \<and> outputs c' = outputs c"

subsection \<open>A concrete instance\<close>

text \<open>
  A small instance of the collaborators on which the functions above can be
  evaluated.  The engine is a counter.  A nucleus is a pair of its deformation
  \<open>beta2\<close> and its current nucleons; a nucleon is a position on a line, and sampling
  puts two nucleons at distance \<open>beta2\<close> on either side of the offset.  The normal
  distribution returns \<open>mean + std * z\<close> with \<open>z\<close> the parity of the engine; the
  uniform draw is 1/4 in engine state 2 and 0 in every other state.  Two nucleons
  participate when they are closer than the model's distance, which is 1.
\<close>

definition toy :: "(real \<times> real list, real, real, nat, nat) collaborators" where
  "toy = \<lparr>normal_distribution = (\<lambda>mean std g. (mean + std * real (g mod 2), g + 2)),
          canonical = (\<lambda>g. (if g = 2 then 1 / 4 else 0, g + 1)),
          engine_seed = (\<lambda>seed. nat seed),
          Nucleus_create = (\<lambda>species dmin a0 beta2 beta3 beta4 gamma. Inr (beta2, [])),
          radius = (\<lambda>N. 1),
          sample_nucleons = (\<lambda>N offset g. ((fst N, [offset - fst N, offset + fst N]), g + 1)),
          nucleons = snd,
          NucleonCommon_ctor = (\<lambda>vm. Inr 1),
          max_impact = (\<lambda>nc. nc),
          participate = (\<lambda>nc a b g. (\<bar>a - b\<bar> < nc, g + 1)),
          Event_ctor = (\<lambda>vm. Inr 0),
          compute = (\<lambda>ev A B nc. ev + 1),
          Output_ctor = (\<lambda>vm. None)\<rparr>"

definition toy_config :: var_map where
  "toy_config = \<lparr>projectile = [''U'', ''U''], nucleon_min_dist = 0, a0 = 0,
                 y_mean = 0, y_std = 0, beta2_mean = 1 / 4, beta2_std = 1,
                 beta3 = 0, beta4 = 0, number_events = 2, ncoll_opt = True, toColl = True,
                 b_min = 0, b_max = 4, random_seed = 2\<rparr>"

text \<open>The Collider that the constructor builds from \<open>toy_config\<close> when the engine
  starts in state 0, with the tracking flags as parameters.\<close>

definition toy_collider :: "bool \<Rightarrow> bool \<Rightarrow> (real \<times> real list, real, nat) collider" where
  "toy_collider track_ncoll track_trials =
     \<lparr>nucleusA = (1 / 4, []), nucleusB = (1 / 4, []), nucleon_common = 1,
      nevents = 2, calc_ncoll = track_ncoll, calc_toColl = track_trials,
      bmin = 0, bmax = 4, asymmetry = 1 / 2, event = 0, outputs = []\<rparr>"



section \<open>Facts\<close>

subsection \<open>Facts about the sweep and the loop\<close>

lemma incr_int_small [simp]: "incr_int 0 = 1" "incr_int 1 = 2"
  by (simp_all add: incr_int_def)


lemma pair_outcomes_append:
  "pair_outcomes X nc (ps @ qs) g =
     (fst (pair_outcomes X nc ps g) @ fst (pair_outcomes X nc qs (snd (pair_outcomes X nc ps g))),
      snd (pair_outcomes X nc qs (snd (pair_outcomes X nc ps g))))"
  by (induction ps arbitrary: g) (auto simp: split_def Let_def)

lemma length_pair_outcomes: "length (fst (pair_outcomes X nc ps g)) = length ps"
  by (induction ps arbitrary: g) (auto simp: split_def Let_def)

lemma loop_B_outcomes:
  "loop_B X nc calc a bs (ncoll, collision, g) =
     (ncoll + tally calc (fst (pair_outcomes X nc (map (Pair a) bs) g)),
      collision \<or> True \<in> set (fst (pair_outcomes X nc (map (Pair a) bs) g)),
      snd (pair_outcomes X nc (map (Pair a) bs) g))"
  by (induction bs arbitrary: ncoll collision g) (auto simp: split_def Let_def tally_def)

lemma loop_A_outcomes:
  "loop_A X nc calc as bs (ncoll, collision, g) =
     (ncoll + tally calc (fst (pair_outcomes X nc (List.product as bs) g)),
      collision \<or> True \<in> set (fst (pair_outcomes X nc (List.product as bs) g)),
      snd (pair_outcomes X nc (List.product as bs) g))"
proof (induction as arbitrary: ncoll collision g)
  case Nil
  then show ?case by (simp add: tally_def)
next
  case (Cons a as)
  show ?case
    by (simp add: loop_B_outcomes Cons.IH pair_outcomes_append tally_def)
qed


lemma trial_outcomes_eq:
  "trial X (ncoll, collision, nToCollide, c, g) =
     (fst (geometry X c g),
      ncoll + tally (calc_ncoll c) (fst (trial_outcomes X c g)),
      collision \<or> True \<in> set (fst (trial_outcomes X c g)),
      (if calc_toColl c then incr_int nToCollide else nToCollide),
      fst (snd (geometry X c g)),
      snd (trial_outcomes X c g))"
  by (simp add: trial_def geometry_def trial_outcomes_def split_def Let_def loop_A_outcomes)

lemma sample_loop_step:
  "sample_loop X s =
     (if collided (trial X s) then Some (returned (trial X s)) else sample_loop X (advance X s))"
  by (subst sample_loop.simps, cases "trial X s") (auto simp: collided_def returned_def advance_def)

lemma sample_loop_unroll:
  assumes "sample_loop X s = Some r"
  shows "\<exists>k. (\<forall>i<k. \<not> collided (trial X ((advance X ^^ i) s)))
           \<and> collided (trial X ((advance X ^^ k) s))
           \<and> r = returned (trial X ((advance X ^^ k) s))"
  using assms
proof (induction rule: sample_loop.raw_induct[rotated 1, consumes 1])
  case (1 f X s r)
  show ?case
  proof (cases "collided (trial X s)")
    case True
    with 1(2) have "r = returned (trial X s)"
      by (cases "trial X s") (auto simp: collided_def returned_def)
    with True show ?thesis by (intro exI[of _ 0]) simp
  next
    case False
    with 1(2) have "f X (advance X s) = Some r"
      by (cases "trial X s") (auto simp: collided_def advance_def)
    from 1(1)[OF this] obtain k where
      "(\<forall>i<k. \<not> collided (trial X ((advance X ^^ i) (advance X s))))
         \<and> collided (trial X ((advance X ^^ k) (advance X s)))
         \<and> r = returned (trial X ((advance X ^^ k) (advance X s)))" ..
    then have k: "\<forall>i<k. \<not> collided (trial X ((advance X ^^ i) (advance X s)))"
         "collided (trial X ((advance X ^^ k) (advance X s)))"
         "r = returned (trial X ((advance X ^^ k) (advance X s)))"
      by simp_all
    have "\<forall>i<Suc k. \<not> collided (trial X ((advance X ^^ i) s))"
    proof (intro allI impI)
      fix i assume "i < Suc k"
      then show "\<not> collided (trial X ((advance X ^^ i) s))"
        using False k(1) by (cases i) (simp_all del: funpow.simps add: funpow_Suc_right)
    qed
    with k(2,3) show ?thesis
      by (intro exI[of _ "Suc k"]) (simp del: funpow.simps add: funpow_Suc_right)
  qed
qed

lemma sample_loop_returns:
  assumes "\<forall>i<k. \<not> collided (trial X ((advance X ^^ i) s))"
      and "collided (trial X ((advance X ^^ k) s))"
  shows "sample_loop X s = Some (returned (trial X ((advance X ^^ k) s)))"
  using assms
proof (induction k arbitrary: s)
  case 0
  then show ?case by (subst sample_loop_step) simp
next
  case (Suc k)
  from Suc.prems(1) have "\<not> collided (trial X s)" by (auto dest: spec[of _ 0])
  moreover have "sample_loop X (advance X s) = Some (returned (trial X ((advance X ^^ k) (advance X s))))"
  proof (rule Suc.IH)
    show "\<forall>i<k. \<not> collided (trial X ((advance X ^^ i) (advance X s)))"
    proof (intro allI impI)
      fix i assume "i < k"
      then have "\<not> collided (trial X ((advance X ^^ Suc i) s))"
        using Suc.prems(1) by blast
      then show "\<not> collided (trial X ((advance X ^^ i) (advance X s)))"
        by (simp del: funpow.simps add: funpow_Suc_right)
    qed
    show "collided (trial X ((advance X ^^ k) (advance X s)))"
      using Suc.prems(2) by (simp del: funpow.simps add: funpow_Suc_right)
  qed
  ultimately show ?case
    by (subst sample_loop_step) (simp del: funpow.simps add: funpow_Suc_right)
qed


lemma advance_funpow_invariant:
  assumes "I s" and "\<And>s. I s \<Longrightarrow> I (advance X s)"
  shows "I ((advance X ^^ k) s)"
  using assms by (induction k) simp_all

lemma sample_loop_invariant:
  assumes "sample_loop X s = Some r" and "I s" and "\<And>s. I s \<Longrightarrow> I (advance X s)"
  obtains s' where "I s'" and "collided (trial X s')" and "r = returned (trial X s')"
proof -
  from sample_loop_unroll[OF assms(1)] obtain k where
    "collided (trial X ((advance X ^^ k) s))" "r = returned (trial X ((advance X ^^ k) s))"
    by auto
  moreover have "I ((advance X ^^ k) s)"
    using assms(2,3) by (rule advance_funpow_invariant)
  ultimately show thesis using that by blast
qed

lemma geometry_frame:
  "nucleon_common (fst (snd (geometry X c g))) = nucleon_common c"
  "nevents (fst (snd (geometry X c g))) = nevents c"
  "calc_ncoll (fst (snd (geometry X c g))) = calc_ncoll c"
  "calc_toColl (fst (snd (geometry X c g))) = calc_toColl c"
  "bmin (fst (snd (geometry X c g))) = bmin c"
  "bmax (fst (snd (geometry X c g))) = bmax c"
  "asymmetry (fst (snd (geometry X c g))) = asymmetry c"
  "event (fst (snd (geometry X c g))) = event c"
  "outputs (fst (snd (geometry X c g))) = outputs c"
  by (simp_all add: geometry_def split_def Let_def)

lemma advance_same_config:
  "same_config c (fst (snd (snd (snd s)))) \<Longrightarrow> same_config c (fst (snd (snd (snd (advance X s)))))"
  by (cases s) (simp add: advance_def trial_outcomes_eq same_config_def geometry_frame)

lemma sample_loop_same_config:
  assumes "sample_loop X (ncoll, collision, nToCollide, c, g) = Some (r, c', g')"
  shows "same_config c c'"
proof -
  have "same_config c (fst (snd (snd (snd (ncoll, collision, nToCollide, c, g)))))"
    by (simp add: same_config_def)
  with assms obtain s' where s': "same_config c (fst (snd (snd (snd s'))))"
      "(r, c', g') = returned (trial X s')"
    by (rule sample_loop_invariant[where I = "\<lambda>s. same_config c (fst (snd (snd (snd s))))"])
       (simp_all add: advance_same_config)
  then show ?thesis
    by (cases s') (simp add: returned_def trial_outcomes_eq same_config_def geometry_frame)
qed

lemma sample_collision_nevents:
  "sample_collision X c g = Some (r, c', g') \<Longrightarrow> nevents c' = nevents c"
  by (auto simp: sample_collision_def same_config_def dest: sample_loop_same_config)

text \<open>The event loop ends: each pass increases \<open>n\<close> and leaves \<open>nevents\<close>.\<close>

termination run_events_from
  by (relation "measure (\<lambda>(X, n, c, g). nat (nevents c - n))")
     (auto dest: sample_collision_nevents)

subsection \<open>Facts about the trials of one call\<close>

lemma no_True_filter: "True \<notin> set rs \<Longrightarrow> filter (\<lambda>r. r) rs = []"
  by (induction rs) auto

lemma True_filter: "True \<in> set rs \<Longrightarrow> 0 < length (filter (\<lambda>r. r) rs)"
  by (induction rs) auto

lemma tally_rejected: "True \<notin> set rs \<Longrightarrow> tally calc rs = 0"
  by (simp add: tally_def no_True_filter)

lemma state_before_0: "state_before X c g 0 = (0, False, 0, c, g)"
  by (simp add: state_before_def)

lemma state_before_Suc: "state_before X c g (Suc i) = advance X (state_before X c g i)"
  by (simp add: state_before_def)

lemma state_before_same_config:
  "same_config c (fst (snd (snd (snd (state_before X c g i)))))"
proof (induction i)
  case 0
  show ?case by (simp add: state_before_0 same_config_def)
next
  case (Suc i)
  then show ?case by (simp add: state_before_Suc advance_same_config)
qed

lemma state_before_rejected:
  assumes "\<forall>j<k. \<not> collided (trial X (state_before X c g j))" and "i \<le> k"
  shows "\<exists>ci gi. state_before X c g i = (0, False, (if calc_toColl c then (incr_int ^^ i) 0 else 0), ci, gi)
           \<and> same_config c ci"
  using assms(2)
proof (induction i)
  case 0
  show ?case by (simp add: state_before_0 same_config_def)
next
  case (Suc i)
  then obtain ci gi where
    st: "state_before X c g i = (0, False, (if calc_toColl c then (incr_int ^^ i) 0 else 0), ci, gi)"
    and cfg: "same_config c ci"
    by auto
  from Suc.prems assms(1) have "\<not> collided (trial X (state_before X c g i))" by simp
  then have no: "True \<notin> set (fst (trial_outcomes X ci gi))"
    by (simp add: st trial_outcomes_eq collided_def)
  have "same_config c (fst (snd (geometry X ci gi)))"
    using cfg by (simp add: same_config_def geometry_frame)
  moreover have "calc_toColl ci = calc_toColl c"
    using cfg by (simp add: same_config_def)
  ultimately show ?case
    using no by (simp add: state_before_Suc st advance_def trial_outcomes_eq tally_rejected)
qed

lemma sample_collision_trials:
  assumes "sample_collision X c g = Some ((b, ncoll, t), c', g')"
  shows "\<exists>k. (\<forall>i<k. participating X (state_before X c g i) = 0)
           \<and> 0 < participating X (state_before X c g k)
           \<and> ncoll = (if calc_ncoll c then int (participating X (state_before X c g k)) else 0)
           \<and> t = (if calc_toColl c then (incr_int ^^ Suc k) 0 else 0)
           \<and> trial X (state_before X c g k) = (b, ncoll, True, t, c', g')"
proof -
  from assms have "sample_loop X (0, False, 0, c, g) = Some ((b, ncoll, t), c', g')"
    by (simp add: sample_collision_def)
  from sample_loop_unroll[OF this] obtain k where
    "(\<forall>i<k. \<not> collided (trial X ((advance X ^^ i) (0, False, 0, c, g))))
       \<and> collided (trial X ((advance X ^^ k) (0, False, 0, c, g)))
       \<and> ((b, ncoll, t), c', g') = returned (trial X ((advance X ^^ k) (0, False, 0, c, g)))" ..
  then have rej: "\<forall>i<k. \<not> collided (trial X (state_before X c g i))"
    and acc: "collided (trial X (state_before X c g k))"
    and res: "((b, ncoll, t), c', g') = returned (trial X (state_before X c g k))"
    by (simp_all add: state_before_def)
  have zero: "participating X (state_before X c g i) = 0" if "i < k" for i
  proof -
    from that have "i \<le> k" by simp
    from state_before_rejected[OF rej this] obtain ci gi where
      st: "state_before X c g i = (0, False, (if calc_toColl c then (incr_int ^^ i) 0 else 0), ci, gi)"
      by auto
    from rej that have "\<not> collided (trial X (state_before X c g i))" by simp
    then have "True \<notin> set (fst (trial_outcomes X ci gi))"
      by (simp add: st trial_outcomes_eq collided_def)
    then show ?thesis
      by (simp add: st participating_def no_True_filter)
  qed
  from state_before_rejected[OF rej order_refl] obtain ck gk where
    st: "state_before X c g k = (0, False, (if calc_toColl c then (incr_int ^^ k) 0 else 0), ck, gk)"
    and cfg: "same_config c ck"
    by auto
  from acc have hit: "True \<in> set (fst (trial_outcomes X ck gk))"
    by (simp add: st trial_outcomes_eq collided_def)
  have flags: "calc_ncoll ck = calc_ncoll c" "calc_toColl ck = calc_toColl c"
    using cfg by (simp_all add: same_config_def)
  have pos: "0 < participating X (state_before X c g k)"
    using True_filter[OF hit] by (simp add: st participating_def)
  have n: "ncoll = (if calc_ncoll c then int (participating X (state_before X c g k)) else 0)"
    using res by (simp add: st returned_def trial_outcomes_eq participating_def tally_def flags)
  have t: "t = (if calc_toColl c then (incr_int ^^ Suc k) 0 else 0)"
    using res by (simp add: st returned_def trial_outcomes_eq flags)
  have tr: "trial X (state_before X c g k) = (b, ncoll, True, t, c', g')"
    using res hit by (simp add: st returned_def trial_outcomes_eq)
  from zero pos n t tr show ?thesis by blast
qed

text \<open>The call returns exactly when some trial has a participating pair.\<close>

lemma sample_collision_returns_iff:
  "(\<exists>r. sample_collision X c g = Some r) \<longleftrightarrow>
   (\<exists>k. collided (trial X (state_before X c g k)))"
proof
  assume "\<exists>r. sample_collision X c g = Some r"
  then obtain r where "sample_loop X (0, False, 0, c, g) = Some r"
    by (auto simp: sample_collision_def)
  from sample_loop_unroll[OF this] show "\<exists>k. collided (trial X (state_before X c g k))"
    by (auto simp: state_before_def)
next
  assume "\<exists>k. collided (trial X (state_before X c g k))"
  then obtain k where k: "collided (trial X (state_before X c g k))"
    and least: "\<forall>i<k. \<not> collided (trial X (state_before X c g i))"
    using exists_least_iff[of "\<lambda>k. collided (trial X (state_before X c g k))"] by auto
  have "sample_loop X (0, False, 0, c, g) =
      Some (returned (trial X ((advance X ^^ k) (0, False, 0, c, g))))"
    by (rule sample_loop_returns) (use k least in \<open>simp_all add: state_before_def\<close>)
  then show "\<exists>r. sample_collision X c g = Some r"
    unfolding sample_collision_def by (rule exI)
qed

lemma sampled_b_bounds:
  fixes lo hi u :: real
  assumes "0 \<le> lo" and "lo \<le> hi" and "0 \<le> u" and "u < 1"
  shows "lo \<le> sqrt (lo * lo + (hi * hi - lo * lo) * u)"
    and "sqrt (lo * lo + (hi * hi - lo * lo) * u) \<le> hi"
proof -
  have sq: "lo * lo \<le> hi * hi"
    using assms(1,2) by (intro mult_mono) simp_all
  then have d: "0 \<le> hi * hi - lo * lo" by simp
  have "0 \<le> (hi * hi - lo * lo) * u"
    using d assms(3) by simp
  then have "lo\<^sup>2 \<le> lo * lo + (hi * hi - lo * lo) * u"
    by (simp add: power2_eq_square)
  then show "lo \<le> sqrt (lo * lo + (hi * hi - lo * lo) * u)"
    by (rule real_le_rsqrt)
  have "(hi * hi - lo * lo) * u \<le> (hi * hi - lo * lo) * 1"
    using d assms(4) by (intro mult_left_mono) simp_all
  then have "lo * lo + (hi * hi - lo * lo) * u \<le> hi\<^sup>2"
    by (simp add: power2_eq_square)
  moreover have "0 \<le> hi" using assms(1,2) by simp
  ultimately show "sqrt (lo * lo + (hi * hi - lo * lo) * u) \<le> hi"
    by (intro real_le_lsqrt) simp_all
qed

lemma geometry_b:
  "fst (geometry X c g) =
     sqrt (bmin c * bmin c + (bmax c * bmax c - bmin c * bmin c) * fst (canonical X g))"
  by (simp add: geometry_def split_def Let_def)

lemma sum_last_only:
  fixes f :: "nat \<Rightarrow> nat"
  assumes "\<forall>i<k. f i = 0"
  shows "(\<Sum>i\<le>k. f i) = f k"
proof -
  have "(\<Sum>i\<le>k. f i) = (\<Sum>i<k. f i) + f k"
    by (simp add: lessThan_Suc_atMost[symmetric])
  also have "(\<Sum>i<k. f i) = 0"
    using assms by simp
  finally show ?thesis by simp
qed

text \<open>
  The range of \<open>ncoll\<close>.  The returned \<open>ncoll\<close> is at most the number of nucleon
  pairs, and it is 0 at the start of every trial: \<^verbatim>\<open>++ncoll\<close> does not pass \<^verbatim>\<open>INT_MAX\<close>
  unless the two nuclei have more than \<open>2\<^sup>3\<^sup>1 - 1\<close> pairs.
\<close>

lemma sample_collision_ncoll_bound:
  assumes "sample_collision X c g = Some ((b, ncoll, t), c', g')"
  shows "0 \<le> ncoll \<and>
         ncoll \<le> int (length (nucleons X (nucleusA c')) * length (nucleons X (nucleusB c')))"
proof -
  from sample_collision_trials[OF assms] obtain k where
    n: "ncoll = (if calc_ncoll c then int (participating X (state_before X c g k)) else 0)"
    and tr: "trial X (state_before X c g k) = (b, ncoll, True, t, c', g')"
    by auto
  obtain n0 col t0 ck gk where st: "state_before X c g k = (n0, col, t0, ck, gk)"
    by (cases "state_before X c g k")
  from tr have c': "c' = fst (snd (geometry X ck gk))"
    by (simp add: st trial_outcomes_eq)
  have "participating X (state_before X c g k) \<le> length (fst (trial_outcomes X ck gk))"
    by (simp add: st participating_def)
  also have "\<dots> = length (nucleons X (nucleusA c')) * length (nucleons X (nucleusB c'))"
    by (simp add: c' trial_outcomes_def split_def length_pair_outcomes)
  finally have "int (participating X (state_before X c g k)) \<le>
      int (length (nucleons X (nucleusA c')) * length (nucleons X (nucleusB c')))"
    by (simp only: of_nat_le_iff)
  with n show ?thesis by (simp split: if_splits)
qed



subsection \<open>The seed and the nuclei\<close>

text \<open>
  With a positive seed the engine's state at the start of the program reaches a run
  only through the two nuclei, which \<^verbatim>\<open>create_nucleus\<close> builds from draws made before
  the constructor's body seeds the engine.
\<close>

lemma seeded_run_depends_on_nuclei_only:
  assumes "0 < random_seed vm"
    and "create_nucleus X vm 0 g = Inr (A, g1)" and "create_nucleus X vm 1 g1 = Inr (B, g2)"
    and "create_nucleus X vm 0 h = Inr (A, h1)" and "create_nucleus X vm 1 h1 = Inr (B, h2)"
  shows "reported X vm g = reported X vm h"
  using assms by (simp add: reported_def Collider_def Let_def split: sum.splits option.splits)

lemma toy_nuclei_differ:
  "create_nucleus toy toy_config 0 0 = Inr ((1 / 4, []), 4)"
  "create_nucleus toy toy_config 0 3 = Inr ((5 / 4, []), 7)"
  by (simp_all add: create_nucleus_def toy_def toy_config_def Let_def)

subsection \<open>The concrete instance, evaluated\<close>

text \<open>With the engine in state 2 the first trial draws \<open>b = 2\<close> and no pair
  participates; the second draws \<open>b = 0\<close> and all four pairs do.\<close>

lemma toy_trial_far:
  "trial toy (0, False, 0, toy_collider cn ct, 2) =
     (2, 0, False, (if ct then 1 else 0),
      (toy_collider cn ct)\<lparr>nucleusA := (1 / 4, [3 / 4, 5 / 4]),
                             nucleusB := (1 / 4, [- (5 / 4), - (3 / 4)])\<rparr>, 9)"
  by (simp add: trial_def toy_def toy_collider_def Let_def)

lemma toy_trial_near:
  "g \<noteq> 2 \<Longrightarrow>
   trial toy (0, False, t,
      (toy_collider cn ct)\<lparr>nucleusA := (1 / 4, pA), nucleusB := (1 / 4, pB)\<rparr>, g) =
     (0, (if cn then 4 else 0), True, (if ct then incr_int t else t),
      (toy_collider cn ct)\<lparr>nucleusA := (1 / 4, [- (1 / 4), 1 / 4]),
                             nucleusB := (1 / 4, [- (1 / 4), 1 / 4])\<rparr>, g + 7)"
  by (simp add: trial_def toy_def toy_collider_def Let_def)

lemma toy_sample_collision:
  "sample_collision toy (toy_collider cn ct) 2 =
     Some ((0, (if cn then 4 else 0), (if ct then 2 else 0)),
           (toy_collider cn ct)\<lparr>nucleusA := (1 / 4, [- (1 / 4), 1 / 4]),
                                  nucleusB := (1 / 4, [- (1 / 4), 1 / 4])\<rparr>, 16)"
proof -
  have "sample_collision toy (toy_collider cn ct) 2 =
      sample_loop toy (advance toy (0, False, 0, toy_collider cn ct, 2))"
    unfolding sample_collision_def
    by (subst sample_loop_step) (simp add: toy_trial_far collided_def)
  also have "advance toy (0, False, 0, toy_collider cn ct, 2) =
      (0, False, (if ct then 1 else 0),
       (toy_collider cn ct)\<lparr>nucleusA := (1 / 4, [3 / 4, 5 / 4]),
                              nucleusB := (1 / 4, [- (5 / 4), - (3 / 4)])\<rparr>, 9)"
    by (simp add: advance_def toy_trial_far)
  also have "sample_loop toy \<dots> =
      Some ((0, (if cn then 4 else 0), (if ct then 2 else 0)),
            (toy_collider cn ct)\<lparr>nucleusA := (1 / 4, [- (1 / 4), 1 / 4]),
                                   nucleusB := (1 / 4, [- (1 / 4), 1 / 4])\<rparr>, 16)"
    by (subst sample_loop_step) (simp add: toy_trial_near collided_def returned_def)
  finally show ?thesis .
qed







section \<open>The claims\<close>

subsection \<open>Run parameters\<close>

text \<open>
  C3.  \<^verbatim>\<open>determine_bmax\<close> returns the configured maximum impact parameter as it is when
  it is not negative, and the sum of the two radii and the model's maximum
  interaction distance when it is negative; for radii 1.2 and 1.2 and distance 0.6
  the derived value is 3.
\<close>

theorem determine_bmax_cases:
  "(0 \<le> cfg \<longrightarrow> determine_bmax cfg rA rB d = cfg) \<and>
   (cfg < 0 \<longrightarrow> determine_bmax cfg rA rB d = rA + rB + d) \<and>
   (cfg < 0 \<longrightarrow> determine_bmax cfg 1.2 1.2 0.6 = 3)"
  by (simp add: determine_bmax_def)

theorem determine_bmax_cases_witness:
  "(0::real) \<le> 5 \<and> determine_bmax 5 1.2 1.2 0.6 = 5 \<and>
   (-1::real) < 0 \<and> determine_bmax (-1) 1.2 1.2 0.6 = 3 \<and>
   determine_bmax (-1) 7 2 0.5 = 9.5"
  using determine_bmax_cases [of 5 "1.2" "1.2" "0.6"] determine_bmax_cases [of "-1" 7 2 "0.5"]
  by simp

text \<open>
  C4.  \<^verbatim>\<open>determine_asym\<close> returns \<open>rA / (rA + rB)\<close> when the sum of the radii is at
  least the threshold 0.1, and 0.5 when the sum is below it; for radii 0 and 0 it
  returns 0.5 and for radii 2 and 1 it returns 2/3.
\<close>

theorem determine_asym_cases:
  "(0.1 \<le> rA + rB \<longrightarrow> determine_asym rA rB = rA / (rA + rB)) \<and>
   (rA + rB < 0.1 \<longrightarrow> determine_asym rA rB = 0.5) \<and>
   determine_asym 0 0 = 0.5 \<and>
   determine_asym 2 1 = 2 / 3"
  by (simp add: determine_asym_def Let_def)

theorem determine_asym_cases_witness:
  "(0.1::real) \<le> 2 + 1 \<and> determine_asym 2 1 = 2 / (2 + 1) \<and>
   (0.03::real) + 0.04 < 0.1 \<and> determine_asym 0.03 0.04 = 0.5"
  using determine_asym_cases [of 2 1] determine_asym_cases [of "0.03" "0.04"]
  by simp

subsection \<open>The rejection sampler\<close>

text \<open>
  C1.  In \<^verbatim>\<open>sample_collision\<close> every trial evaluates \<^verbatim>\<open>participate\<close> on every pair of the
  Cartesian product of the nucleons of A and of B, with no early exit: one pass of
  the loop body adds to \<open>ncoll\<close> the number of participating pairs among all of them
  (when counting is enabled), sets \<open>collision\<close> to its disjunction with all the
  outcomes, and leaves the engine as the last of the \<open>|A| * |B|\<close> calls left it.
  The returned \<open>ncoll\<close>, when counting is enabled, is the number of participating
  pairs summed over all trials of the call, the rejected ones included (each of
  which contributes none).
\<close>

theorem sample_collision_counts_all_pairs:
  "trial X (n, col, t0, c, g) =
      (fst (geometry X c g),
       n + tally (calc_ncoll c) (fst (trial_outcomes X c g)),
       col \<or> True \<in> set (fst (trial_outcomes X c g)),
       (if calc_toColl c then incr_int t0 else t0),
       fst (snd (geometry X c g)),
       snd (trial_outcomes X c g))
   \<and> length (fst (trial_outcomes X c g)) =
       length (nucleons X (nucleusA (fst (snd (geometry X c g))))) *
       length (nucleons X (nucleusB (fst (snd (geometry X c g)))))
   \<and> (sample_collision X c g = Some ((b, ncoll, t), c', g') \<longrightarrow>
       (\<exists>k. (\<forall>i<k. participating X (state_before X c g i) = 0)
          \<and> ncoll = (if calc_ncoll c
                      then int (\<Sum>i\<le>k. participating X (state_before X c g i)) else 0)
          \<and> trial X (state_before X c g k) = (b, ncoll, True, t, c', g')))"
proof (intro conjI impI)
  show "trial X (n, col, t0, c, g) =
      (fst (geometry X c g),
       n + tally (calc_ncoll c) (fst (trial_outcomes X c g)),
       col \<or> True \<in> set (fst (trial_outcomes X c g)),
       (if calc_toColl c then incr_int t0 else t0),
       fst (snd (geometry X c g)),
       snd (trial_outcomes X c g))"
    by (rule trial_outcomes_eq)
  show "length (fst (trial_outcomes X c g)) =
       length (nucleons X (nucleusA (fst (snd (geometry X c g))))) *
       length (nucleons X (nucleusB (fst (snd (geometry X c g)))))"
    by (simp add: trial_outcomes_def split_def length_pair_outcomes)
next
  assume "sample_collision X c g = Some ((b, ncoll, t), c', g')"
  from sample_collision_trials[OF this] obtain k where
    zero: "\<forall>i<k. participating X (state_before X c g i) = 0"
    and n: "ncoll = (if calc_ncoll c then int (participating X (state_before X c g k)) else 0)"
    and tr: "trial X (state_before X c g k) = (b, ncoll, True, t, c', g')"
    by auto
  from zero have "(\<Sum>i\<le>k. participating X (state_before X c g i)) =
      participating X (state_before X c g k)"
    by (rule sum_last_only)
  with n have n': "ncoll = (if calc_ncoll c
      then int (\<Sum>i\<le>k. participating X (state_before X c g i)) else 0)"
    by (simp only:)
  from zero n' tr show "\<exists>k. (\<forall>i<k. participating X (state_before X c g i) = 0)
          \<and> ncoll = (if calc_ncoll c
                      then int (\<Sum>i\<le>k. participating X (state_before X c g i)) else 0)
          \<and> trial X (state_before X c g k) = (b, ncoll, True, t, c', g')"
    by (intro exI[of _ k] conjI)
qed

theorem sample_collision_counts_all_pairs_witness:
  "sample_collision toy (toy_collider True True) 2 =
     Some ((0, 4, 2),
           (toy_collider True True)\<lparr>nucleusA := (1 / 4, [- (1 / 4), 1 / 4]),
                                      nucleusB := (1 / 4, [- (1 / 4), 1 / 4])\<rparr>, 16)
   \<and> (\<exists>k. (\<forall>i<k. participating toy (state_before toy (toy_collider True True) 2 i) = 0)
          \<and> 4 = (if calc_ncoll (toy_collider True True)
                   then int (\<Sum>i\<le>k. participating toy (state_before toy (toy_collider True True) 2 i))
                   else 0)
          \<and> trial toy (state_before toy (toy_collider True True) 2 k) =
              (0, 4, True, 2,
               (toy_collider True True)\<lparr>nucleusA := (1 / 4, [- (1 / 4), 1 / 4]),
                                          nucleusB := (1 / 4, [- (1 / 4), 1 / 4])\<rparr>, 16))"
proof -
  have h: "sample_collision toy (toy_collider True True) 2 =
     Some ((0, 4, 2),
           (toy_collider True True)\<lparr>nucleusA := (1 / 4, [- (1 / 4), 1 / 4]),
                                      nucleusB := (1 / 4, [- (1 / 4), 1 / 4])\<rparr>, 16)"
    using toy_sample_collision [of True True] by simp
  from sample_collision_counts_all_pairs
    [where X = toy and c = "toy_collider True True" and g = 2 and b = 0 and ncoll = 4 and t = 2
       and c' = "(toy_collider True True)\<lparr>nucleusA := (1 / 4, [- (1 / 4), 1 / 4]),
                                           nucleusB := (1 / 4, [- (1 / 4), 1 / 4])\<rparr>"
       and g' = 16] h
  show ?thesis by blast
qed
text \<open>
  C2.  When \<open>0 \<le> bmin \<le> bmax\<close> and the uniform draw lies in \<open>[0, 1)\<close>, the impact
  parameter \<open>b = sqrt (bmin\<^sup>2 + (bmax\<^sup>2 - bmin\<^sup>2) * u)\<close> of every trial of
  \<^verbatim>\<open>sample_collision\<close>, accepted or rejected, lies between \<open>bmin\<close> and \<open>bmax\<close>, and
  so does the returned one.
\<close>

theorem impact_parameter_in_range:
  assumes "0 \<le> bmin c" and "bmin c \<le> bmax c"
    and "\<forall>g. 0 \<le> fst (canonical X g) \<and> fst (canonical X g) < 1"
  shows "(\<forall>i. bmin c \<le> fst (trial X (state_before X c g i)) \<and>
              fst (trial X (state_before X c g i)) \<le> bmax c) \<and>
         (\<forall>r. sample_collision X c g = Some r \<longrightarrow>
              bmin c \<le> fst (fst r) \<and> fst (fst r) \<le> bmax c)"
proof -
  have every: "bmin c \<le> fst (trial X (state_before X c g i)) \<and>
      fst (trial X (state_before X c g i)) \<le> bmax c" for i
  proof -
    obtain n col t ci gi where st: "state_before X c g i = (n, col, t, ci, gi)"
      by (cases "state_before X c g i")
    have "same_config c ci"
      using state_before_same_config[of c X g i] by (simp add: st)
    then have lim: "bmin ci = bmin c" "bmax ci = bmax c"
      by (simp_all add: same_config_def)
    have "fst (trial X (state_before X c g i)) =
        sqrt (bmin c * bmin c + (bmax c * bmax c - bmin c * bmin c) * fst (canonical X gi))"
      by (simp add: st trial_outcomes_eq geometry_b lim)
    moreover from assms(3) have "0 \<le> fst (canonical X gi)" "fst (canonical X gi) < 1"
      by simp_all
    ultimately show ?thesis
      using sampled_b_bounds[OF assms(1,2), of "fst (canonical X gi)"] by simp
  qed
  have "bmin c \<le> fst (fst r) \<and> fst (fst r) \<le> bmax c"
    if "sample_collision X c g = Some r" for r
  proof -
    obtain b ncoll t c' g' where r: "r = ((b, ncoll, t), c', g')"
      by (cases r) auto
    from sample_collision_trials[OF that[unfolded r]] obtain k where
      "trial X (state_before X c g k) = (b, ncoll, True, t, c', g')"
      by auto
    with every[of k] show ?thesis by (simp add: r)
  qed
  with every show ?thesis by blast
qed

theorem impact_parameter_in_range_witness:
  "0 \<le> bmin (toy_collider True True) \<and>
   bmin (toy_collider True True) \<le> bmax (toy_collider True True) \<and>
   (\<forall>g. 0 \<le> fst (canonical toy g) \<and> fst (canonical toy g) < 1) \<and>
   fst (trial toy (state_before toy (toy_collider True True) 2 0)) = 2 \<and>
   bmin (toy_collider True True) \<le> 2 \<and> 2 \<le> bmax (toy_collider True True) \<and>
   fst (fst (the (sample_collision toy (toy_collider True True) 2))) = 0 \<and>
   bmin (toy_collider True True) \<le> 0 \<and> 0 \<le> bmax (toy_collider True True)"
proof -
  have h1: "0 \<le> bmin (toy_collider True True)"
    and h2: "bmin (toy_collider True True) \<le> bmax (toy_collider True True)"
    by (simp_all add: toy_collider_def)
  have h3: "\<forall>g. 0 \<le> fst (canonical toy g) \<and> fst (canonical toy g) < 1"
    by (simp add: toy_def)
  have t0: "fst (trial toy (state_before toy (toy_collider True True) 2 0)) = 2"
    by (simp add: state_before_0 toy_trial_far)
  have r: "fst (fst (the (sample_collision toy (toy_collider True True) 2))) = 0"
    by (simp add: toy_sample_collision)
  from impact_parameter_in_range [OF h1 h2 h3, of 2] h1 h2 h3 t0 r
  show ?thesis by (simp add: toy_collider_def)
qed

text \<open>
  C5.  When \<^verbatim>\<open>participate\<close> is true for the first pair checked in the first trial (the
  first nucleon of A with the first nucleon of B, as sampled for the first impact
  parameter), \<^verbatim>\<open>sample_collision\<close> returns after exactly one pass of the loop body:
  its result is the one built from the variables after that pass, with
  \<open>nToCollide = 1\<close> when trials are tracked (0 otherwise) and \<open>ncoll \<ge> 1\<close> when
  collisions are counted.
\<close>

theorem first_pair_hit_one_trial:
  assumes "geometry X c g = (b, c1, g3)"
    and "nucleons X (nucleusA c1) = a # as"
    and "nucleons X (nucleusB c1) = a' # bs"
    and "fst (participate X (nucleon_common c1) a a' g3)"
  shows "sample_collision X c g = Some (returned (trial X (0, False, 0, c, g))) \<and>
         (\<exists>ncoll c' g'.
            sample_collision X c g =
              Some ((b, ncoll, if calc_toColl c then 1 else 0), c', g') \<and>
            (calc_ncoll c \<longrightarrow> 1 \<le> ncoll))"
proof -
  have hit: "True \<in> set (fst (trial_outcomes X c g))"
    using assms by (simp add: trial_outcomes_def split_def Let_def)
  then have "collided (trial X (0, False, 0, c, g))"
    by (simp add: trial_outcomes_eq collided_def)
  then have ret: "sample_collision X c g = Some (returned (trial X (0, False, 0, c, g)))"
    unfolding sample_collision_def by (subst sample_loop_step) simp
  have val: "returned (trial X (0, False, 0, c, g)) =
      ((b, tally (calc_ncoll c) (fst (trial_outcomes X c g)), if calc_toColl c then 1 else 0),
       c1, snd (trial_outcomes X c g))"
    using assms(1) by (simp add: trial_outcomes_eq returned_def)
  have "1 \<le> int (length (filter (\<lambda>r. r) (fst (trial_outcomes X c g))))"
    using True_filter[OF hit] by linarith
  then have "calc_ncoll c \<longrightarrow> 1 \<le> tally (calc_ncoll c) (fst (trial_outcomes X c g))"
    by (simp add: tally_def)
  with ret val show ?thesis by simp
qed

theorem first_pair_hit_one_trial_witness:
  "geometry toy (toy_collider True True) 9 =
     (0, (toy_collider True True)\<lparr>nucleusA := (1 / 4, [- (1 / 4), 1 / 4]),
                                    nucleusB := (1 / 4, [- (1 / 4), 1 / 4])\<rparr>, 12) \<and>
   fst (participate toy 1 (- (1 / 4)) (- (1 / 4)) 12) \<and>
   sample_collision toy (toy_collider True True) 9 =
     Some (returned (trial toy (0, False, 0, toy_collider True True, 9))) \<and>
   (\<exists>ncoll c' g'.
      sample_collision toy (toy_collider True True) 9 = Some ((0, ncoll, 1), c', g') \<and>
      1 \<le> ncoll)"
proof -
  let ?c1 = "(toy_collider True True)\<lparr>nucleusA := (1 / 4, [- (1 / 4), 1 / 4]),
                                        nucleusB := (1 / 4, [- (1 / 4), 1 / 4])\<rparr>"
  have h1: "geometry toy (toy_collider True True) 9 = (0, ?c1, 12)"
    by (simp add: geometry_def toy_def toy_collider_def Let_def)
  have h2: "nucleons toy (nucleusA ?c1) = - (1 / 4) # [1 / 4]"
    and h3: "nucleons toy (nucleusB ?c1) = - (1 / 4) # [1 / 4]"
    by (simp_all add: toy_def)
  have nc: "nucleon_common ?c1 = 1"
    by (simp add: toy_collider_def)
  have p: "fst (participate toy 1 (- (1 / 4)) (- (1 / 4)) 12)"
    by (simp add: toy_def)
  then have h4: "fst (participate toy (nucleon_common ?c1) (- (1 / 4)) (- (1 / 4)) 12)"
    by (simp only: nc)
  have flags: "calc_toColl (toy_collider True True)" "calc_ncoll (toy_collider True True)"
    by (simp_all add: toy_collider_def)
  note th = first_pair_hit_one_trial [OF h1 h2 h3 h4]
  from th have c1: "sample_collision toy (toy_collider True True) 9 =
      Some (returned (trial toy (0, False, 0, toy_collider True True, 9)))"
    by (rule conjunct1)
  from th [THEN conjunct2] have c2: "\<exists>ncoll c' g'.
      sample_collision toy (toy_collider True True) 9 = Some ((0, ncoll, 1), c', g') \<and>
      1 \<le> ncoll"
    by (simp only: flags if_True simp_thms)
  from h1 p c1 c2 show ?thesis by (intro conjI)
qed

text \<open>
  C6.  The two tracking flags are independent: whenever \<^verbatim>\<open>sample_collision\<close> returns,
  the returned \<open>ncoll\<close> is 0 if collision counting is disabled and the returned
  \<open>nToCollide\<close> is 0 if trial counting is disabled, whatever the other flag is and
  however many pairs participated or trials were made.  Both are always part of the
  returned tuple.
\<close>

theorem tracking_flags_independent:
  assumes "sample_collision X c g = Some ((b, ncoll, t), c', g')"
  shows "(\<not> calc_ncoll c \<longrightarrow> ncoll = 0) \<and> (\<not> calc_toColl c \<longrightarrow> t = 0)"
proof -
  from sample_collision_trials[OF assms] obtain k where
    "ncoll = (if calc_ncoll c then int (participating X (state_before X c g k)) else 0)"
    "t = (if calc_toColl c then (incr_int ^^ Suc k) 0 else 0)"
    by auto
  then show ?thesis by simp
qed

theorem tracking_flags_independent_witness:
  "sample_collision toy (toy_collider False True) 2 =
     Some ((0, 0, 2), (toy_collider False True)\<lparr>nucleusA := (1 / 4, [- (1 / 4), 1 / 4]),
                                                 nucleusB := (1 / 4, [- (1 / 4), 1 / 4])\<rparr>, 16) \<and>
   \<not> calc_ncoll (toy_collider False True) \<and>
   sample_collision toy (toy_collider True False) 2 =
     Some ((0, 4, 0), (toy_collider True False)\<lparr>nucleusA := (1 / 4, [- (1 / 4), 1 / 4]),
                                                 nucleusB := (1 / 4, [- (1 / 4), 1 / 4])\<rparr>, 16) \<and>
   \<not> calc_toColl (toy_collider True False) \<and>
   participating toy (state_before toy (toy_collider False True) 2 1) = 4"
proof -
  have a: "sample_collision toy (toy_collider False True) 2 =
     Some ((0, 0, 2), (toy_collider False True)\<lparr>nucleusA := (1 / 4, [- (1 / 4), 1 / 4]),
                                                 nucleusB := (1 / 4, [- (1 / 4), 1 / 4])\<rparr>, 16)"
    using toy_sample_collision [of False True] by simp
  have b: "sample_collision toy (toy_collider True False) 2 =
     Some ((0, 4, 0), (toy_collider True False)\<lparr>nucleusA := (1 / 4, [- (1 / 4), 1 / 4]),
                                                 nucleusB := (1 / 4, [- (1 / 4), 1 / 4])\<rparr>, 16)"
    using toy_sample_collision [of True False] by simp
  have f: "\<not> calc_ncoll (toy_collider False True)" "\<not> calc_toColl (toy_collider True False)"
    by (simp_all add: toy_collider_def)
  have "state_before toy (toy_collider False True) 2 1 =
      (0, False, 1, (toy_collider False True)\<lparr>nucleusA := (1 / 4, [3 / 4, 5 / 4]),
                                                 nucleusB := (1 / 4, [- (5 / 4), - (3 / 4)])\<rparr>, 9)"
    by (simp add: state_before_def advance_def toy_trial_far)
  then have p: "participating toy (state_before toy (toy_collider False True) 2 1) = 4"
    by (simp add: participating_def trial_outcomes_def geometry_def toy_def toy_collider_def
        Let_def)
  from tracking_flags_independent [OF a] tracking_flags_independent [OF b] a b f p
  show ?thesis by simp
qed




subsection \<open>The constructor\<close>

text \<open>
  C7 as stated: constructing the Collider with a negative \<open>bmin\<close>, with
  \<open>bmax < bmin\<close> after derivation, or with a negative event count fails at
  construction time.  It does not: on the concrete instance each of the three
  configurations yields a Collider, with the offending values stored.
\<close>

theorem Collider_invalid_configuration_counterexample:
  "Collider toy (toy_config\<lparr>b_min := - 1\<rparr>) 0 =
     Inr ((toy_collider True True)\<lparr>bmin := - 1\<rparr>, 2) \<and>
   Collider toy (toy_config\<lparr>b_min := 5, b_max := - 1\<rparr>) 0 =
     Inr ((toy_collider True True)\<lparr>bmin := 5, bmax := 3\<rparr>, 2) \<and>
   Collider toy (toy_config\<lparr>number_events := - 1\<rparr>) 0 =
     Inr ((toy_collider True True)\<lparr>nevents := - 1\<rparr>, 2)"
  by (simp add: Collider_def create_nucleus_def toy_def toy_config_def toy_collider_def
      determine_bmax_def determine_asym_def Let_def)

text \<open>
  C7, amended.  The constructor checks none of \<open>bmin\<close>, \<open>bmax\<close> and the event count.
  Whenever both nuclei are created and the constructors of \<^verbatim>\<open>NucleonCommon\<close>, \<^verbatim>\<open>Event\<close>
  and \<^verbatim>\<open>Output\<close> succeed, construction succeeds, whatever these values are; it stores
  \<^verbatim>\<open>b-min\<close> and the event count as configured, and \<^verbatim>\<open>b-max\<close> as configured when it is
  not negative and derived from the radii otherwise.
\<close>

theorem Collider_checks_no_limits:
  assumes "create_nucleus X vm 0 g = Inr (A, g1)"
    and "create_nucleus X vm 1 g1 = Inr (B, g2)"
    and "NucleonCommon_ctor X vm = Inr nc"
    and "Event_ctor X vm = Inr ev"
    and "Output_ctor X vm = None"
  shows "\<exists>c g'. Collider X vm g = Inr (c, g') \<and>
           bmin c = b_min vm \<and>
           bmax c = determine_bmax (b_max vm) (radius X A) (radius X B) (max_impact X nc) \<and>
           nevents c = number_events vm"
  using assms by (simp add: Collider_def Let_def)

theorem Collider_checks_no_limits_witness:
  "create_nucleus toy (toy_config\<lparr>number_events := - 1, b_min := - 1\<rparr>) 0 0 =
     Inr ((1 / 4, []), 4) \<and>
   create_nucleus toy (toy_config\<lparr>number_events := - 1, b_min := - 1\<rparr>) 1 4 =
     Inr ((1 / 4, []), 8) \<and>
   NucleonCommon_ctor toy (toy_config\<lparr>number_events := - 1, b_min := - 1\<rparr>) = Inr 1 \<and>
   Event_ctor toy (toy_config\<lparr>number_events := - 1, b_min := - 1\<rparr>) = Inr 0 \<and>
   Output_ctor toy (toy_config\<lparr>number_events := - 1, b_min := - 1\<rparr>) = None \<and>
   (\<exists>c g'. Collider toy (toy_config\<lparr>number_events := - 1, b_min := - 1\<rparr>) 0 = Inr (c, g') \<and>
      bmin c = - 1 \<and> bmax c = 4 \<and> nevents c = - 1)"
proof -
  let ?vm = "toy_config\<lparr>number_events := - 1, b_min := - 1\<rparr>"
  have h1: "create_nucleus toy ?vm 0 0 = Inr ((1 / 4, []), 4)"
    and h2: "create_nucleus toy ?vm 1 4 = Inr ((1 / 4, []), 8)"
    by (simp_all add: create_nucleus_def toy_def toy_config_def Let_def)
  have h3: "NucleonCommon_ctor toy ?vm = Inr 1"
    and h4: "Event_ctor toy ?vm = Inr 0"
    and h5: "Output_ctor toy ?vm = None"
    by (simp_all add: toy_def)
  have v: "b_min ?vm = - 1" "number_events ?vm = - 1"
    "determine_bmax (b_max ?vm) (radius toy (1 / 4, [])) (radius toy (1 / 4, []))
       (max_impact toy 1) = 4"
    by (simp_all add: toy_config_def determine_bmax_def)
  from Collider_checks_no_limits [OF h1 h2 h3 h4 h5]
  have "\<exists>c g'. Collider toy ?vm 0 = Inr (c, g') \<and> bmin c = - 1 \<and> bmax c = 4 \<and> nevents c = - 1"
    by (simp only: v)
  with h1 h2 h3 h4 h5 show ?thesis by (intro conjI)
qed

text \<open>
  C8.  With a positive seed and the same configuration, two runs report the same
  sequence of \<open>(b, ncoll, nToCollide)\<close>.  The code does not ensure it: the two runs
  below differ only in the engine's state before construction (0 and 3), the seed is
  2 in both, and the reported sequences differ, because \<open>beta2\<close> of each nucleus is
  drawn before the seed is applied.
\<close>

theorem seeded_runs_differ:
  "0 < random_seed toy_config \<and>
   reported toy toy_config 0 = Some (Inr [(0, 4, 2), (0, 4, 1)]) \<and>
   reported toy toy_config 3 = Some (Inr [(2, 1, 1), (0, 2, 1)])"
  by (simp add: reported_def Collider_def create_nucleus_def run_events_def
      run_events_from.simps sample_collision_def sample_loop_step trial_def collided_def
      returned_def advance_def toy_def toy_config_def determine_bmax_def determine_asym_def
      Let_def)

subsection \<open>The event loop\<close>

text \<open>
  C10.  When the event count is zero or negative, \<^verbatim>\<open>run_events\<close> makes no pass through
  its loop and returns: the Collider (its nuclei, its event and the calls made to
  the output among it) and the engine are as they were, so neither
  \<^verbatim>\<open>sample_collision\<close> nor \<^verbatim>\<open>compute\<close> nor the output has been called.
\<close>

theorem run_events_no_events:
  assumes "nevents c \<le> 0"
  shows "run_events X c g = Some (c, g)"
  using assms by (simp add: run_events_def)

theorem run_events_no_events_witness:
  "nevents ((toy_collider True True)\<lparr>nevents := 0\<rparr>) \<le> 0 \<and>
   run_events toy ((toy_collider True True)\<lparr>nevents := 0\<rparr>) 2 =
     Some ((toy_collider True True)\<lparr>nevents := 0\<rparr>, 2) \<and>
   nevents ((toy_collider True True)\<lparr>nevents := - 3\<rparr>) \<le> 0 \<and>
   run_events toy ((toy_collider True True)\<lparr>nevents := - 3\<rparr>) 2 =
     Some ((toy_collider True True)\<lparr>nevents := - 3\<rparr>, 2)"
proof -
  have a: "nevents ((toy_collider True True)\<lparr>nevents := 0\<rparr>) \<le> 0"
    and b: "nevents ((toy_collider True True)\<lparr>nevents := - 3\<rparr>) \<le> 0"
    by simp_all
  from run_events_no_events [OF a, of toy 2] run_events_no_events [OF b, of toy 2] a b
  show ?thesis by (intro conjI)
qed

end
